theory Spec2Isabelle
  imports Complex_Main
begin

section \<open>Numbers and template literals\<close>

text \<open>
  The coordinates of the grid are JavaScript numbers that hold small integers; they are
  modelled as \<open>int\<close>, which is exact for integers of magnitude below \<open>2^53\<close>, where
  \<^verbatim>\<open>x+1\<close> does not round. A template literal \<^verbatim>\<open>${e}\<close> converts the number \<open>e\<close> with
  \<^verbatim>\<open>Number.prototype.toString\<close>: for such an integer that is its decimal numeral, with a
  leading minus sign when it is negative. The claims below are stated for the coordinates
  of the grid, which are far inside that range.
\<close>

definition digit_char :: "nat \<Rightarrow> char" where
  "digit_char d = char_of (48 + d)"

fun decimal :: "nat \<Rightarrow> string" where
  "decimal n = (if n < 10 then [digit_char n] else decimal (n div 10) @ [digit_char (n mod 10)])"

declare decimal.simps [simp del]

definition Number_toString :: "int \<Rightarrow> string" where
  "Number_toString i = (if i < 0 then CHR ''-'' # decimal (nat (- i)) else decimal (nat i))"

text \<open>
  Reading a decimal numeral back, used to state that \<open>Number_toString\<close> writes decimal
  digits: \<open>digit_value\<close> is the value of one digit character, \<open>numeral_value\<close> the value
  of a digit string, most significant digit first, and \<open>None\<close> on anything else.
\<close>

definition digit_value :: "char \<Rightarrow> nat option" where
  "digit_value ch =
     (if 48 \<le> (of_char ch :: nat) \<and> (of_char ch :: nat) \<le> 57
      then Some (of_char ch - 48) else None)"

fun numeral_value_acc :: "nat \<Rightarrow> string \<Rightarrow> nat option" where
  "numeral_value_acc acc [] = Some acc"
| "numeral_value_acc acc (ch # cs) =
     (case digit_value ch of
        None \<Rightarrow> None
      | Some d \<Rightarrow> numeral_value_acc (10 * acc + d) cs)"

definition numeral_value :: "string \<Rightarrow> nat option" where
  "numeral_value s = (if s = [] then None else numeral_value_acc 0 s)"


section \<open>The grid of cells (App and Cell)\<close>

type_synonym Coordinate = "int \<times> int"

text \<open>The module constant \<^verbatim>\<open>grid\<close> of App: six rows of coordinates.\<close>

definition grid :: "Coordinate list list" where
  "grid =
    [ [(0, 2), (0, 3), (0, 4)],
     [(1, 0), (1, 1), (1, 2), (1, 3), (1, 4), (1, 5), (1, 6)],
     [(2, 0), (2, 1), (2, 2), (2, 3), (2, 4), (2, 5), (2, 6)],
     [(3, 0), (3, 1), (3, 2), (3, 3), (3, 4), (3, 5), (3, 6)],
     [(4, 0), (4, 1), (4, 2), (4, 3), (4, 4), (4, 5), (4, 6)],
     [(5, 2), (5, 3), (5, 4)] ]"

text \<open>
  A rendered \<^verbatim>\<open>Cell\<close>: a \<^verbatim>\<open>div\<close> of class \<^verbatim>\<open>cell\<close> whose only child is the text
  \<^verbatim>\<open>`(${x}, ${y})`\<close>.
\<close>

record Cell_element =
  className :: string
  content :: string

definition Cell :: "int \<Rightarrow> int \<Rightarrow> Cell_element" where
  "Cell x y =
     \<lparr>className = ''cell'',
      content = ''('' @ Number_toString x @ '', '' @ Number_toString y @ '')''\<rparr>"

text \<open>
  The wrapper \<^verbatim>\<open>div\<close> that App renders for one coordinate: its React key
  \<^verbatim>\<open>`${x}-${y}`\<close>, its style \<^verbatim>\<open>gridArea: `${x+1} / ${y+1} / ${x+1} / ${y+1}`\<close> and the
  \<^verbatim>\<open>Cell\<close> inside.
\<close>

record grid_item =
  key :: string
  gridArea :: string
  child :: Cell_element

definition render_coordinate :: "Coordinate \<Rightarrow> grid_item" where
  "render_coordinate xy =
     (case xy of (x, y) \<Rightarrow>
        \<lparr>key = Number_toString x @ ''-'' @ Number_toString y,
         gridArea =
           Number_toString (x + 1) @ '' / '' @ Number_toString (y + 1) @ '' / '' @
           Number_toString (x + 1) @ '' / '' @ Number_toString (y + 1),
         child = Cell x y\<rparr>)"

text \<open>
  The children of the grid container, \<^verbatim>\<open>grid.map(row => row.map(([x, y]) => ...))\<close>, as
  a function of the array that is mapped over: an array of arrays of wrappers.
\<close>

definition render_grid :: "Coordinate list list \<Rightarrow> grid_item list list" where
  "render_grid g = map (map render_coordinate) g"

text \<open>
  The container's \<^verbatim>\<open>gridTemplateColumns\<close> style,
  \<^verbatim>\<open>`repeat(7, fit-content(${100.0/7.0}%))`\<close>: a repetition count and one track sizing
  function. The percentage is a floating-point quotient; it is kept as the two operands of
  the division.
\<close>

datatype track_size = fit_content_percent int int

datatype track_list = repeat nat track_size

definition gridTemplateColumns :: track_list where
  "gridTemplateColumns = repeat 7 (fit_content_percent 100 7)"


record grid_container =
  template_columns :: track_list
  children :: "grid_item list list"

definition App_grid :: grid_container where
  "App_grid = \<lparr>template_columns = gridTemplateColumns, children = render_grid grid\<rparr>"




text \<open>
  Evaluating the rendering as a JavaScript computation, which either throws or completes
  with the rendered children. The expression contains no \<^verbatim>\<open>throw\<close> and calls no
  validating function, on any build, so it always completes.
\<close>

datatype 'a completion = Thrown string | Normal 'a

definition layout :: "Coordinate list list \<Rightarrow> grid_item list list completion" where
  "layout g = Normal (render_grid g)"






section \<open>The shared store\<close>

text \<open>
  Modelled from the spec: the store's state type (\<^verbatim>\<open>store/store\<close>) is not among the
  sources. Section 3: "UserNameState: a single committed string value, owned exclusively by
  SharedState".
\<close>

record SharedState =
  committed :: string

text \<open>
  Modelled from the spec: the action creator \<^verbatim>\<open>setUserName\<close> of
  \<^verbatim>\<open>store/user/userSlice\<close> is not among the sources. Section 6:
  "setUserName(newValue: string)"; the action carries the new value.
\<close>

datatype action = setUserName string

text \<open>
  Modelled from the spec: the selector \<^verbatim>\<open>selectUserName\<close> of
  \<^verbatim>\<open>store/user/selectors\<close> is not among the sources. Section 6: "read committed value;
  must be callable at any time, synchronous, no side effects".
\<close>

definition selectUserName :: "SharedState \<Rightarrow> string" where
  "selectUserName s = committed s"

text \<open>
  Modelled from the spec: the reducer of \<^verbatim>\<open>store/user/userSlice\<close> is not among the
  sources. Section 6: "dispatches a commit; synchronous apply, observable by the next
  selectUserName() call"; section 3: the committed value is "mutated only by the commit
  action".
\<close>

fun reducer :: "SharedState \<Rightarrow> action \<Rightarrow> SharedState" where
  "reducer s (setUserName newValue) = s\<lparr>committed := newValue\<rparr>"

section \<open>React hooks\<close>

text \<open>
  The hook cells of one instance of \<^verbatim>\<open>NameChange\<close>, in the order the component calls
  the hooks: the cell of \<^verbatim>\<open>useState\<close> and the cell of \<^verbatim>\<open>useMemo\<close> (the dependency
  array of the last computation and its value). Both are empty before the first render.
\<close>

record hooks =
  state_cell :: "string option"
  memo_cell :: "((string \<times> string) \<times> bool) option"

definition unmounted :: hooks where
  "unmounted = \<lparr>state_cell = None, memo_cell = None\<rparr>"

text \<open>
  The world a render or a handler runs in: the store, the trace of the actions dispatched
  to it (kept for counting writes; nothing reads it), the hook cells of the mounted
  instance and the messages shown by \<^verbatim>\<open>alert\<close>.
\<close>

record world =
  store :: SharedState
  dispatched :: "action list"
  fiber :: hooks
  alerts :: "string list"

text \<open>
  \<^verbatim>\<open>useState(initial)\<close> gives the initial value on the first render and the stored
  value afterwards; the setter stores a new value.
\<close>

definition useState :: "'a option \<Rightarrow> 'a \<Rightarrow> 'a" where
  "useState cell initial = (case cell of None \<Rightarrow> initial | Some v \<Rightarrow> v)"

definition setInputUserName :: "string \<Rightarrow> world \<Rightarrow> world" where
  "setInputUserName v w = w\<lparr>fiber := (fiber w)\<lparr>state_cell := Some v\<rparr>\<rparr>"

text \<open>
  \<^verbatim>\<open>useMemo(f, deps)\<close> calls \<open>f\<close> on the first render and whenever \<open>deps\<close> differs from
  the dependency array of the last computation; otherwise it gives the stored value.
\<close>

definition useMemo :: "('d \<times> 'a) option \<Rightarrow> (unit \<Rightarrow> 'a) \<Rightarrow> 'd \<Rightarrow> 'a \<times> ('d \<times> 'a) option" where
  "useMemo cell f deps =
     (case cell of
        None \<Rightarrow> (f (), Some (deps, f ()))
      | Some (deps', v) \<Rightarrow> if deps' = deps then (v, cell) else (f (), Some (deps, f ())))"

text \<open>
  Modelled from the spec: the hook \<^verbatim>\<open>useAppSelector\<close> of \<^verbatim>\<open>hooks/stateHooks\<close> is not
  among the sources. Section 2: the controller "reads SharedState once per render to obtain
  the committed value".
\<close>

definition useAppSelector :: "(SharedState \<Rightarrow> 'a) \<Rightarrow> world \<Rightarrow> 'a" where
  "useAppSelector selector w = selector (store w)"

text \<open>
  Modelled from the spec: the hook \<^verbatim>\<open>useAppDispatch\<close> of \<^verbatim>\<open>hooks/stateHooks\<close> and the
  store's \<^verbatim>\<open>dispatch\<close> that it returns are not among the sources. Section 4.2:
  "SharedState updates are synchronous, in-process, and cannot fail"; section 5: the write
  is "visible to the very next read". The action is also appended to the trace.
\<close>

definition dispatch :: "action \<Rightarrow> world \<Rightarrow> world" where
  "dispatch a w = w\<lparr>store := reducer (store w) a, dispatched := dispatched w @ [a]\<rparr>"

section \<open>The name field (NameChange and Button)\<close>

record ChangeEvent =
  target_value :: string

text \<open>The constants of one render of \<^verbatim>\<open>NameChange\<close>.\<close>

record locals =
  userName :: string
  inputUserName :: string
  canChangeName :: bool

definition run_hooks :: "world \<Rightarrow> locals \<times> hooks" where
  "run_hooks w =
     (let userName = useAppSelector selectUserName w;
          inputUserName = useState (state_cell (fiber w)) userName;
          (canChangeName, memo) =
             useMemo (memo_cell (fiber w)) (\<lambda>_. userName \<noteq> inputUserName)
               (userName, inputUserName)
      in (\<lparr>userName = userName, inputUserName = inputUserName, canChangeName = canChangeName\<rparr>,
          \<lparr>state_cell = Some inputUserName, memo_cell = memo\<rparr>))"

definition handleInputChange :: "ChangeEvent \<Rightarrow> world \<Rightarrow> world" where
  "handleInputChange event = setInputUserName (target_value event)"

definition handleNameChange :: "locals \<Rightarrow> world \<Rightarrow> world" where
  "handleNameChange l = dispatch (setUserName (inputUserName l))"

definition alert :: "string \<Rightarrow> world \<Rightarrow> world" where
  "alert message w = w\<lparr>alerts := alerts w @ [message]\<rparr>"

record Button_element =
  button_text :: string
  button_onClick :: "world \<Rightarrow> world"

definition Button :: "string \<Rightarrow> (world \<Rightarrow> world) \<Rightarrow> Button_element" where
  "Button t onClick = \<lparr>button_text = t, button_onClick = onClick\<rparr>"

text \<open>
  What \<^verbatim>\<open>NameChange\<close> returns: the paragraph, the input, the Submit button and the
  \<^verbatim>\<open>testing\<close> button.
\<close>

record NameChange_element =
  p_content :: string
  input_onChange :: "ChangeEvent \<Rightarrow> world \<Rightarrow> world"
  input_value :: string
  submit_onClick :: "world \<Rightarrow> world"
  submit_disabled :: bool
  testing :: Button_element

definition NameChange :: "world \<Rightarrow> NameChange_element \<times> world" where
  "NameChange w =
     (case run_hooks w of (l, h) \<Rightarrow>
        (\<lparr>p_content = ''Don'' @ [CHR 0x27] @ ''t like the name '' @ userName l @ ''? Change It!'',
          input_onChange = handleInputChange,
          input_value = inputUserName l,
          submit_onClick = handleNameChange l,
          submit_disabled = (\<not> canChangeName l),
          testing = Button ''testing'' (alert ''hello world'')\<rparr>,
         w\<lparr>fiber := h\<rparr>))"

text \<open>
  What the user can do with the rendered element. Typing in the input fires
  \<^verbatim>\<open>onChange\<close> with the new text; clicking a button fires its \<^verbatim>\<open>onClick\<close>, unless the
  button is disabled: the browser sends no click to a disabled button.
\<close>

datatype ui_event = Type string | ClickSubmit | ClickTesting

definition deliver :: "NameChange_element \<Rightarrow> ui_event \<Rightarrow> world \<Rightarrow> world" where
  "deliver el ev w =
     (case ev of
        Type newText \<Rightarrow> input_onChange el \<lparr>target_value = newText\<rparr> w
      | ClickSubmit \<Rightarrow> if submit_disabled el then w else submit_onClick el w
      | ClickTesting \<Rightarrow> button_onClick (testing el) w)"

text \<open>One turn of the event loop: render, then run the handler of the event.\<close>

definition step :: "world \<Rightarrow> ui_event \<Rightarrow> world" where
  "step w ev = (case NameChange w of (el, w') \<Rightarrow> deliver el ev w')"

text \<open>
  Mounting: the first render of a new instance of the component, on the store as it is.
\<close>

definition mount :: "world \<Rightarrow> world" where
  "mount w = snd (NameChange (w\<lparr>fiber := unmounted\<rparr>))"

text \<open>The Submit handler of the current render, run whether or not the button is enabled.\<close>

definition invoke_commit :: "world \<Rightarrow> world" where
  "invoke_commit w = (case NameChange w of (el, w') \<Rightarrow> submit_onClick el w')"

text \<open>
  The constants the next render will see, the memo cells that \<^verbatim>\<open>useMemo\<close> itself can
  have written, and the worlds that the event loop reaches from a start with no instance
  mounted.
\<close>

definition current :: "world \<Rightarrow> locals" where
  "current w = fst (run_hooks w)"

definition memo_ok :: "hooks \<Rightarrow> bool" where
  "memo_ok h =
     (case memo_cell h of
        None \<Rightarrow> True
      | Some ((u, i), v) \<Rightarrow> v = (u \<noteq> i))"

inductive reachable :: "world \<Rightarrow> bool" where
  start: "reachable \<lparr>store = s, dispatched = [], fiber = unmounted, alerts = []\<rparr>"
| turn: "reachable w \<Longrightarrow> reachable (step w ev)"
| remount: "reachable w \<Longrightarrow> reachable (mount w)"

text \<open>
  Two worlds used as examples: a start with no instance mounted, and the world after the
  name field was mounted on it and the user typed \<open>d\<close>.
\<close>

definition initial :: "string \<Rightarrow> world" where
  "initial c = \<lparr>store = \<lparr>committed = c\<rparr>, dispatched = [], fiber = unmounted, alerts = []\<rparr>"

definition example_world :: "string \<Rightarrow> string \<Rightarrow> world" where
  "example_world c d = step (mount (initial c)) (Type d)"

section \<open>Decimal numerals\<close>

lemma digit_value_digit_char: "d < 10 \<Longrightarrow> digit_value (digit_char d) = Some d"
  by (simp add: digit_value_def digit_char_def)

lemma numeral_value_acc_decimal:
  "numeral_value_acc acc (decimal n @ cs) =
     numeral_value_acc (acc * 10 ^ length (decimal n) + n) cs"
proof (induction n arbitrary: acc cs rule: decimal.induct)
  case (1 n)
  show ?case
  proof (cases "n < 10")
    case True
    then show ?thesis
      by (simp add: decimal.simps[of n] digit_value_digit_char mult.commute)
  next
    case False
    have "numeral_value_acc acc (decimal n @ cs) =
            numeral_value_acc acc (decimal (n div 10) @ (digit_char (n mod 10) # cs))"
      using False by (simp add: decimal.simps[of n])
    also have "\<dots> =
            numeral_value_acc (acc * 10 ^ length (decimal (n div 10)) + n div 10)
              (digit_char (n mod 10) # cs)"
      using 1[OF False] by simp
    also have "\<dots> = numeral_value_acc (acc * 10 ^ length (decimal n) + n) cs"
      using False by (simp add: decimal.simps[of n] digit_value_digit_char algebra_simps)
    finally show ?thesis .
  qed
qed

lemma decimal_nonempty: "decimal n \<noteq> []"
  by (subst decimal.simps) simp

lemma numeral_value_decimal: "numeral_value (decimal n) = Some n"
  using numeral_value_acc_decimal[of 0 n "[]"]
  by (simp add: numeral_value_def decimal_nonempty)









lemma decimal_digit: "n < 10 \<Longrightarrow> decimal n = [digit_char n]"
  by (simp add: decimal.simps)

lemma Number_toString_digit:
  "0 \<le> i \<Longrightarrow> i < 10 \<Longrightarrow> Number_toString i = [digit_char (nat i)]"
  by (simp add: Number_toString_def decimal_digit)

lemma digit_char_Suc_0: "digit_char (Suc 0) = CHR ''1''"
  by code_simp

lemma digit_chars:
  "digit_char 0 = CHR ''0''" "digit_char 1 = CHR ''1''" "digit_char 2 = CHR ''2''"
  "digit_char 3 = CHR ''3''" "digit_char 4 = CHR ''4''" "digit_char 5 = CHR ''5''"
  "digit_char 6 = CHR ''6''" "digit_char 7 = CHR ''7''" "digit_char 8 = CHR ''8''"
  "digit_char 9 = CHR ''9''"
  by code_simp+

section \<open>Reading a grid area back\<close>






section \<open>The production grid\<close>

lemma App_grid_children: "concat (children App_grid) = map render_coordinate (concat grid)"
  by (simp add: App_grid_def render_grid_def map_concat)

lemma grid_concat: "concat grid =
   [(0, 2), (0, 3), (0, 4),
    (1, 0), (1, 1), (1, 2), (1, 3), (1, 4), (1, 5), (1, 6),
    (2, 0), (2, 1), (2, 2), (2, 3), (2, 4), (2, 5), (2, 6),
    (3, 0), (3, 1), (3, 2), (3, 3), (3, 4), (3, 5), (3, 6),
    (4, 0), (4, 1), (4, 2), (4, 3), (4, 4), (4, 5), (4, 6),
    (5, 2), (5, 3), (5, 4)]"
  by (simp add: grid_def)



lemma grid_labels: "map (content \<circ> child) (concat (children App_grid)) =
  [''(0, 2)'', ''(0, 3)'', ''(0, 4)'',
   ''(1, 0)'', ''(1, 1)'', ''(1, 2)'', ''(1, 3)'', ''(1, 4)'', ''(1, 5)'', ''(1, 6)'',
   ''(2, 0)'', ''(2, 1)'', ''(2, 2)'', ''(2, 3)'', ''(2, 4)'', ''(2, 5)'', ''(2, 6)'',
   ''(3, 0)'', ''(3, 1)'', ''(3, 2)'', ''(3, 3)'', ''(3, 4)'', ''(3, 5)'', ''(3, 6)'',
   ''(4, 0)'', ''(4, 1)'', ''(4, 2)'', ''(4, 3)'', ''(4, 4)'', ''(4, 5)'', ''(4, 6)'',
   ''(5, 2)'', ''(5, 3)'', ''(5, 4)'']"
  unfolding App_grid_children grid_concat
  by (simp add: render_coordinate_def Cell_def Number_toString_digit digit_chars
        digit_char_Suc_0)

lemma grid_keys: "map key (concat (children App_grid)) =
  [''0-2'', ''0-3'', ''0-4'',
   ''1-0'', ''1-1'', ''1-2'', ''1-3'', ''1-4'', ''1-5'', ''1-6'',
   ''2-0'', ''2-1'', ''2-2'', ''2-3'', ''2-4'', ''2-5'', ''2-6'',
   ''3-0'', ''3-1'', ''3-2'', ''3-3'', ''3-4'', ''3-5'', ''3-6'',
   ''4-0'', ''4-1'', ''4-2'', ''4-3'', ''4-4'', ''4-5'', ''4-6'',
   ''5-2'', ''5-3'', ''5-4'']"
  unfolding App_grid_children grid_concat
  by (simp add: render_coordinate_def Number_toString_digit digit_chars digit_char_Suc_0)

lemma grid_nonneg: "(r, c) \<in> set (concat grid) \<Longrightarrow> 0 \<le> r \<and> 0 \<le> c"
  unfolding grid_concat by auto


lemma grid_distinct: "distinct (concat grid)"
  unfolding grid_concat by simp

lemma keys_distinct: "distinct (map key (concat (children App_grid)))"
  unfolding grid_keys by simp

section \<open>Column widths\<close>






section \<open>Claims about the grid\<close>




text \<open>
  C5. For every coordinate \<open>(r, c)\<close> of the grid, the text of its cell is an opening
  parenthesis, the decimal numeral of \<open>r\<close>, a comma, one space, the decimal numeral of
  \<open>c\<close> and a closing parenthesis; the cell of (2, 5) shows \<open>(2, 5)\<close>, and the cells of
  the production grid show the 34 texts listed.
\<close>

theorem Cell_label:
  "(\<forall>(r, c) \<in> set (concat grid).
      0 \<le> r \<and> 0 \<le> c
      \<and> content (Cell r c) = ''('' @ decimal (nat r) @ '', '' @ decimal (nat c) @ '')''
      \<and> numeral_value (decimal (nat r)) = Some (nat r)
      \<and> numeral_value (decimal (nat c)) = Some (nat c))
   \<and> content (Cell 2 5) = ''(2, 5)''
   \<and> map (content \<circ> child) (concat (children App_grid)) =
      [''(0, 2)'', ''(0, 3)'', ''(0, 4)'',
       ''(1, 0)'', ''(1, 1)'', ''(1, 2)'', ''(1, 3)'', ''(1, 4)'', ''(1, 5)'', ''(1, 6)'',
       ''(2, 0)'', ''(2, 1)'', ''(2, 2)'', ''(2, 3)'', ''(2, 4)'', ''(2, 5)'', ''(2, 6)'',
       ''(3, 0)'', ''(3, 1)'', ''(3, 2)'', ''(3, 3)'', ''(3, 4)'', ''(3, 5)'', ''(3, 6)'',
       ''(4, 0)'', ''(4, 1)'', ''(4, 2)'', ''(4, 3)'', ''(4, 4)'', ''(4, 5)'', ''(4, 6)'',
       ''(5, 2)'', ''(5, 3)'', ''(5, 4)'']"
proof -
  have g: "\<forall>(r, c) \<in> set (concat grid).
      0 \<le> r \<and> 0 \<le> c
      \<and> content (Cell r c) = ''('' @ decimal (nat r) @ '', '' @ decimal (nat c) @ '')''
      \<and> numeral_value (decimal (nat r)) = Some (nat r)
      \<and> numeral_value (decimal (nat c)) = Some (nat c)"
  proof (intro ballI)
    fix x assume x: "x \<in> set (concat grid)"
    obtain r c where rc: "x = (r, c)" by (cases x)
    have "0 \<le> r \<and> 0 \<le> c" using x rc grid_nonneg by blast
    then show "case x of (r, c) \<Rightarrow>
      0 \<le> r \<and> 0 \<le> c
      \<and> content (Cell r c) = ''('' @ decimal (nat r) @ '', '' @ decimal (nat c) @ '')''
      \<and> numeral_value (decimal (nat r)) = Some (nat r)
      \<and> numeral_value (decimal (nat c)) = Some (nat c)"
      by (simp add: rc Cell_def Number_toString_def numeral_value_decimal)
  qed
  have e: "content (Cell 2 5) = ''(2, 5)''"
    by (simp add: Cell_def Number_toString_digit digit_chars)
  show ?thesis
    by (intro conjI) (rule g, rule e, rule grid_labels)
qed

theorem Cell_label_witness:
  "(3, 0) \<in> set (concat grid)
   \<and> content (Cell 3 0) = ''('' @ decimal 3 @ '', '' @ decimal 0 @ '')''
   \<and> decimal 3 = ''3'' \<and> decimal 0 = ''0''
   \<and> content (Cell 3 0) = ''(3, 0)''"
proof -
  have m: "(3, 0) \<in> set (concat grid)" by (simp add: grid_concat)
  have a: "\<forall>(r, c) \<in> set (concat grid).
      0 \<le> r \<and> 0 \<le> c
      \<and> content (Cell r c) = ''('' @ decimal (nat r) @ '', '' @ decimal (nat c) @ '')''
      \<and> numeral_value (decimal (nat r)) = Some (nat r)
      \<and> numeral_value (decimal (nat c)) = Some (nat c)"
    using Cell_label by blast
  have "content (Cell 3 0) = ''('' @ decimal 3 @ '', '' @ decimal 0 @ '')''"
    using bspec[OF a m] by simp
  moreover have "decimal 3 = ''3''" "decimal 0 = ''0''"
    by (simp_all add: decimal_digit digit_chars)
  ultimately show ?thesis using m by simp
qed

text \<open>
  C6. For every coordinate \<open>(r, c)\<close> of the grid, its wrapper has the key made of the
  decimal numeral of \<open>r\<close>, a hyphen and the decimal numeral of \<open>c\<close>; the keys of the
  production grid are the 34 strings listed, no two of them are equal, and the keying
  function is injective on the production coordinates.
\<close>

theorem grid_keys_distinct:
  "(\<forall>(r, c) \<in> set (concat grid).
      key (render_coordinate (r, c)) = decimal (nat r) @ ''-'' @ decimal (nat c))
   \<and> map key (concat (children App_grid)) =
      [''0-2'', ''0-3'', ''0-4'',
       ''1-0'', ''1-1'', ''1-2'', ''1-3'', ''1-4'', ''1-5'', ''1-6'',
       ''2-0'', ''2-1'', ''2-2'', ''2-3'', ''2-4'', ''2-5'', ''2-6'',
       ''3-0'', ''3-1'', ''3-2'', ''3-3'', ''3-4'', ''3-5'', ''3-6'',
       ''4-0'', ''4-1'', ''4-2'', ''4-3'', ''4-4'', ''4-5'', ''4-6'',
       ''5-2'', ''5-3'', ''5-4'']
   \<and> distinct (map key (concat (children App_grid)))
   \<and> inj_on (key \<circ> render_coordinate) (set (concat grid))"
proof -
  have k: "\<forall>(r, c) \<in> set (concat grid).
      key (render_coordinate (r, c)) = decimal (nat r) @ ''-'' @ decimal (nat c)"
  proof (intro ballI)
    fix x assume x: "x \<in> set (concat grid)"
    obtain r c where rc: "x = (r, c)" by (cases x)
    have "0 \<le> r \<and> 0 \<le> c" using x rc grid_nonneg by blast
    then show "case x of (r, c) \<Rightarrow>
      key (render_coordinate (r, c)) = decimal (nat r) @ ''-'' @ decimal (nat c)"
      by (simp add: rc render_coordinate_def Number_toString_def)
  qed
  have "distinct (map (key \<circ> render_coordinate) (concat grid))"
    using keys_distinct by (simp add: App_grid_children)
  then have i: "inj_on (key \<circ> render_coordinate) (set (concat grid))"
    by (simp add: distinct_map)
  show ?thesis
    by (intro conjI) (rule k, rule grid_keys, rule keys_distinct, rule i)
qed

theorem grid_keys_distinct_witness:
  "(4, 6) \<in> set (concat grid)
   \<and> key (render_coordinate (4, 6)) = decimal 4 @ ''-'' @ decimal 6
   \<and> key (render_coordinate (4, 6)) = ''4-6''"
proof -
  have m: "(4, 6) \<in> set (concat grid)" by (simp add: grid_concat)
  have a: "\<forall>(r, c) \<in> set (concat grid).
      key (render_coordinate (r, c)) = decimal (nat r) @ ''-'' @ decimal (nat c)"
    using grid_keys_distinct by blast
  have "key (render_coordinate (4, 6)) = decimal 4 @ ''-'' @ decimal 6"
    using bspec[OF a m] by simp
  moreover have "decimal 4 = ''4''" "decimal 6 = ''6''"
    by (simp_all add: decimal_digit digit_chars)
  ultimately show ?thesis using m by simp
qed

text \<open>
  C8, as stated, fails: the grid \<open>[ [(0, 0), (0, 0)] ]\<close> lists the same coordinate twice,
  and rendering it completes with two wrappers that have the same key and the same grid
  area; nothing is rejected.
\<close>

theorem duplicate_coordinates_laid_out:
  "\<not> distinct (concat [ [(0, 0), (0, 0)] ] :: Coordinate list)
   \<and> layout [ [(0, 0), (0, 0)] ] =
       Normal [ [\<lparr>key = ''0-0'', gridArea = ''1 / 1 / 1 / 1'',
                  child = \<lparr>className = ''cell'', content = ''(0, 0)''\<rparr>\<rparr>,
                \<lparr>key = ''0-0'', gridArea = ''1 / 1 / 1 / 1'',
                  child = \<lparr>className = ''cell'', content = ''(0, 0)''\<rparr>\<rparr>] ]"
  by (simp add: layout_def render_grid_def render_coordinate_def Cell_def
        Number_toString_digit digit_chars digit_char_Suc_0)

text \<open>
  C8, amended. Rendering checks nothing: for every grid, with or without repeated
  coordinates, it completes with one wrapper per listed coordinate, keyed by that
  coordinate, and never throws; the production grid lists no coordinate twice.
\<close>

theorem layout_checks_nothing:
  "layout g = Normal (map (map render_coordinate) g)
   \<and> layout g \<noteq> Thrown message
   \<and> length (concat (render_grid g)) = length (concat g)
   \<and> map (map key) (render_grid g) =
       map (map (\<lambda>(x, y). Number_toString x @ ''-'' @ Number_toString y)) g
   \<and> distinct (concat grid)"
proof -
  have l: "length (concat (render_grid g)) = length (concat g)"
    by (simp add: render_grid_def length_concat comp_def)
  have k: "map (map key) (render_grid g) =
      map (map (\<lambda>(x, y). Number_toString x @ ''-'' @ Number_toString y)) g"
    by (simp add: render_grid_def render_coordinate_def comp_def split_def)
  show ?thesis using l k grid_distinct by (simp add: layout_def render_grid_def)
qed

section \<open>One render and one turn of the name field\<close>

lemma current_userName: "userName (current w) = selectUserName (store w)"
  by (simp add: current_def run_hooks_def useAppSelector_def Let_def split: prod.splits)

lemma current_inputUserName:
  "inputUserName (current w) =
     (case state_cell (fiber w) of None \<Rightarrow> selectUserName (store w) | Some v \<Rightarrow> v)"
  by (simp add: current_def run_hooks_def useAppSelector_def useState_def Let_def
        split: prod.splits)

lemma current_canChangeName:
  "memo_ok (fiber w) \<Longrightarrow>
     canChangeName (current w) = (userName (current w) \<noteq> inputUserName (current w))"
  by (auto simp add: current_def run_hooks_def useAppSelector_def useMemo_def memo_ok_def
        Let_def split: prod.splits option.splits if_splits)

lemma run_hooks_memo_ok: "memo_ok (fiber w) \<Longrightarrow> memo_ok (snd (run_hooks w))"
  by (auto simp add: run_hooks_def useAppSelector_def useMemo_def memo_ok_def Let_def
        split: prod.splits option.splits if_splits)

lemma run_hooks_state_cell: "state_cell (snd (run_hooks w)) = Some (inputUserName (current w))"
  by (simp add: current_def run_hooks_def Let_def split: prod.splits)

lemma run_hooks_rendered: "run_hooks (w\<lparr>fiber := snd (run_hooks w)\<rparr>) = run_hooks w"
  by (auto simp add: run_hooks_def useAppSelector_def useState_def useMemo_def Let_def
        split: prod.splits option.splits)

lemma NameChange_eq:
  "NameChange w =
    (\<lparr>p_content =
         ''Don'' @ [CHR 0x27] @ ''t like the name '' @ userName (current w) @ ''? Change It!'',
       input_onChange = handleInputChange,
       input_value = inputUserName (current w),
       submit_onClick = handleNameChange (current w),
       submit_disabled = (\<not> canChangeName (current w)),
       testing = Button ''testing'' (alert ''hello world'')\<rparr>,
     w\<lparr>fiber := snd (run_hooks w)\<rparr>)"
  by (simp add: NameChange_def current_def split: prod.splits)

lemma step_Type:
  "step w (Type t) = w\<lparr>fiber := (snd (run_hooks w))\<lparr>state_cell := Some t\<rparr>\<rparr>"
  by (simp add: step_def deliver_def NameChange_eq handleInputChange_def setInputUserName_def)

lemma step_ClickSubmit:
  "step w ClickSubmit =
     (if canChangeName (current w)
      then dispatch (setUserName (inputUserName (current w))) (w\<lparr>fiber := snd (run_hooks w)\<rparr>)
      else w\<lparr>fiber := snd (run_hooks w)\<rparr>)"
  by (simp add: step_def deliver_def NameChange_eq handleNameChange_def)

lemma step_ClickTesting:
  "step w ClickTesting = alert ''hello world'' (w\<lparr>fiber := snd (run_hooks w)\<rparr>)"
  by (simp add: step_def deliver_def NameChange_eq Button_def)

lemma invoke_commit_eq:
  "invoke_commit w =
     dispatch (setUserName (inputUserName (current w))) (w\<lparr>fiber := snd (run_hooks w)\<rparr>)"
  by (simp add: invoke_commit_def NameChange_eq handleNameChange_def)

lemma mount_eq:
  "mount w =
     w\<lparr>fiber := \<lparr>state_cell = Some (selectUserName (store w)),
                 memo_cell = Some ((selectUserName (store w), selectUserName (store w)), False)\<rparr>\<rparr>"
  by (simp add: mount_def NameChange_eq run_hooks_def unmounted_def useAppSelector_def
        useState_def useMemo_def Let_def)

lemma dispatch_store: "store (dispatch a w) = reducer (store w) a"
  by (simp add: dispatch_def)

lemma dispatch_fiber: "fiber (dispatch a w) = fiber w"
  by (simp add: dispatch_def)

lemma dispatch_dispatched: "dispatched (dispatch a w) = dispatched w @ [a]"
  by (simp add: dispatch_def)

lemma invoke_commit_store:
  "store (invoke_commit w) = (store w)\<lparr>committed := inputUserName (current w)\<rparr>"
  by (simp add: invoke_commit_eq dispatch_def)

lemma invoke_commit_inputUserName:
  "inputUserName (current (invoke_commit w)) = inputUserName (current w)"
  by (simp add: invoke_commit_eq current_inputUserName[of "dispatch _ _"] dispatch_fiber
        run_hooks_state_cell)

lemma run_Type_store:
  "store (foldl step w (map Type texts)) = store w
   \<and> dispatched (foldl step w (map Type texts)) = dispatched w"
  by (induction texts arbitrary: w) (simp_all add: step_Type)

subsection \<open>The memo cell stays consistent\<close>

lemma step_memo_ok: "memo_ok (fiber w) \<Longrightarrow> memo_ok (fiber (step w ev))"
  using run_hooks_memo_ok[of w]
  by (cases ev)
     (auto simp: step_Type step_ClickSubmit step_ClickTesting dispatch_def alert_def
        memo_ok_def)

lemma mount_memo_ok: "memo_ok (fiber (mount w))"
  by (simp add: mount_eq memo_ok_def)

lemma reachable_memo_ok: "reachable w \<Longrightarrow> memo_ok (fiber w)"
proof (induction rule: reachable.induct)
  case (start s)
  show ?case by (simp add: memo_ok_def unmounted_def)
next
  case (turn w ev)
  then show ?case by (simp add: step_memo_ok)
next
  case (remount w)
  show ?case by (rule mount_memo_ok)
qed

subsection \<open>The example worlds\<close>

lemma example_world_eq:
  "example_world c d =
     \<lparr>store = \<lparr>committed = c\<rparr>, dispatched = [],
      fiber = \<lparr>state_cell = Some d, memo_cell = Some ((c, c), False)\<rparr>, alerts = []\<rparr>"
  by (simp add: example_world_def initial_def mount_eq step_Type run_hooks_def
        useAppSelector_def useState_def useMemo_def selectUserName_def Let_def)

lemma example_world_reachable: "reachable (example_world c d)"
  unfolding example_world_def initial_def
  by (intro reachable.turn reachable.remount reachable.start)

lemma example_world_facts:
  "memo_ok (fiber (example_world c d))"
  "selectUserName (store (example_world c d)) = c"
  "state_cell (fiber (example_world c d)) = Some d"
  by (simp_all add: example_world_eq memo_ok_def selectUserName_def)

lemma example_world_current:
  "current (example_world c d) =
     \<lparr>userName = c, inputUserName = d, canChangeName = (c \<noteq> d)\<rparr>"
  by (simp add: example_world_eq current_def run_hooks_def useAppSelector_def useState_def
        useMemo_def selectUserName_def Let_def)

section \<open>Claims about the name field\<close>

text \<open>
  C1. In a world where the committed name \<open>c\<close> and the draft \<open>d\<close> differ, a click on
  Submit dispatches exactly \<open>setUserName d\<close>; the store then reads \<open>d\<close>, the next render
  reads \<open>d\<close> as \<open>userName\<close> with the draft still \<open>d\<close>, so \<open>canChangeName\<close> is false and
  the button is disabled, and a second click, with no edit in between, dispatches nothing
  and leaves the store as it is.
\<close>

theorem commit_then_read:
  assumes ok: "memo_ok (fiber w)"
    and c: "selectUserName (store w) = c"
    and d: "state_cell (fiber w) = Some d"
    and ne: "c \<noteq> d"
  shows "selectUserName (store (step w ClickSubmit)) = d
       \<and> dispatched (step w ClickSubmit) = dispatched w @ [setUserName d]
       \<and> userName (current (step w ClickSubmit)) = d
       \<and> inputUserName (current (step w ClickSubmit)) = d
       \<and> \<not> canChangeName (current (step w ClickSubmit))
       \<and> submit_disabled (fst (NameChange (step w ClickSubmit)))
       \<and> store (step (step w ClickSubmit) ClickSubmit) = store (step w ClickSubmit)
       \<and> dispatched (step (step w ClickSubmit) ClickSubmit) = dispatched (step w ClickSubmit)"
proof -
  let ?w' = "step w ClickSubmit"
  have u: "userName (current w) = c" by (simp add: current_userName c)
  have i: "inputUserName (current w) = d" by (simp add: current_inputUserName d)
  have can: "canChangeName (current w)" using current_canChangeName[OF ok] u i ne by simp
  have w': "?w' = dispatch (setUserName d) (w\<lparr>fiber := snd (run_hooks w)\<rparr>)"
    using can i by (simp add: step_ClickSubmit)
  have s1: "selectUserName (store ?w') = d"
    by (simp add: w' dispatch_store selectUserName_def)
  have s2: "dispatched ?w' = dispatched w @ [setUserName d]"
    by (simp add: w' dispatch_dispatched)
  have f: "fiber ?w' = snd (run_hooks w)" by (simp add: w' dispatch_fiber)
  have ok': "memo_ok (fiber ?w')" using ok by (rule step_memo_ok)
  have u': "userName (current ?w') = d" by (simp add: current_userName s1)
  have i': "inputUserName (current ?w') = d"
    by (simp add: current_inputUserName f run_hooks_state_cell d)
  have can': "\<not> canChangeName (current ?w')" using current_canChangeName[OF ok'] u' i' by simp
  have dis: "submit_disabled (fst (NameChange ?w'))" using can' by (simp add: NameChange_eq)
  have again: "step ?w' ClickSubmit = ?w'\<lparr>fiber := snd (run_hooks ?w')\<rparr>"
    using can' by (simp add: step_ClickSubmit)
  have s3: "store (step ?w' ClickSubmit) = store ?w'" by (simp add: again)
  have s4: "dispatched (step ?w' ClickSubmit) = dispatched ?w'" by (simp add: again)
  show ?thesis using s1 s2 u' i' can' dis s3 s4 by simp
qed

theorem commit_then_read_witness:
  "memo_ok (fiber (example_world ''Alice'' ''Bob''))
   \<and> selectUserName (store (example_world ''Alice'' ''Bob'')) = ''Alice''
   \<and> state_cell (fiber (example_world ''Alice'' ''Bob'')) = Some ''Bob''
   \<and> ''Alice'' \<noteq> ''Bob''
   \<and> selectUserName (store (step (example_world ''Alice'' ''Bob'') ClickSubmit)) = ''Bob''
   \<and> dispatched (step (example_world ''Alice'' ''Bob'') ClickSubmit) = [setUserName ''Bob'']
   \<and> \<not> canChangeName (current (step (example_world ''Alice'' ''Bob'') ClickSubmit))
   \<and> dispatched (step (step (example_world ''Alice'' ''Bob'') ClickSubmit) ClickSubmit) =
       [setUserName ''Bob'']"
proof -
  have a: "memo_ok (fiber (example_world ''Alice'' ''Bob''))"
    by (rule example_world_facts)
  have b: "selectUserName (store (example_world ''Alice'' ''Bob'')) = ''Alice''"
    by (rule example_world_facts)
  have c: "state_cell (fiber (example_world ''Alice'' ''Bob'')) = Some ''Bob''"
    by (rule example_world_facts)
  have d: "''Alice'' \<noteq> ''Bob''" by simp
  have e: "dispatched (example_world ''Alice'' ''Bob'') = []"
    by (simp add: example_world_eq)
  show ?thesis using a b c d e commit_then_read[OF a b c d] by simp
qed

text \<open>
  C2. For every committed name \<open>c\<close> and every draft \<open>d\<close>, the empty string included,
  \<open>canChangeName\<close> is true exactly when \<open>c\<close> and \<open>d\<close> differ, and the Submit button is
  disabled exactly when they are equal; the value is the comparison of the two constants
  of the render, no handler writes the memo cell that holds it, and the cell stays
  consistent after every turn of the event loop.
\<close>

theorem canChangeName_iff:
  assumes ok: "memo_ok (fiber w)"
    and c: "selectUserName (store w) = c"
    and d: "state_cell (fiber w) = Some d"
  shows "canChangeName (current w) = (c \<noteq> d)
       \<and> submit_disabled (fst (NameChange w)) = (c = d)
       \<and> canChangeName (current w) = (userName (current w) \<noteq> inputUserName (current w))
       \<and> memo_cell (fiber (handleInputChange event w)) = memo_cell (fiber w)
       \<and> memo_cell (fiber (handleNameChange l w)) = memo_cell (fiber w)
       \<and> memo_cell (fiber (alert message w)) = memo_cell (fiber w)
       \<and> memo_ok (fiber (step w ev))"
proof -
  have u: "userName (current w) = c" by (simp add: current_userName c)
  have i: "inputUserName (current w) = d" by (simp add: current_inputUserName d)
  have can: "canChangeName (current w) = (c \<noteq> d)"
    using current_canChangeName[OF ok] u i by simp
  have dis: "submit_disabled (fst (NameChange w)) = (c = d)"
    using can by (simp add: NameChange_eq)
  have m1: "memo_cell (fiber (handleInputChange event w)) = memo_cell (fiber w)"
    by (simp add: handleInputChange_def setInputUserName_def)
  have m2: "memo_cell (fiber (handleNameChange l w)) = memo_cell (fiber w)"
    by (simp add: handleNameChange_def dispatch_def)
  have m3: "memo_cell (fiber (alert message w)) = memo_cell (fiber w)"
    by (simp add: alert_def)
  show ?thesis using can dis u i m1 m2 m3 step_memo_ok[OF ok] by simp
qed

theorem canChangeName_iff_witness:
  "memo_ok (fiber (example_world [] ''Bob''))
   \<and> selectUserName (store (example_world [] ''Bob'')) = []
   \<and> state_cell (fiber (example_world [] ''Bob'')) = Some ''Bob''
   \<and> canChangeName (current (example_world [] ''Bob''))
   \<and> \<not> submit_disabled (fst (NameChange (example_world [] ''Bob'')))
   \<and> memo_ok (fiber (example_world [] []))
   \<and> selectUserName (store (example_world [] [])) = []
   \<and> state_cell (fiber (example_world [] [])) = Some []
   \<and> \<not> canChangeName (current (example_world [] []))
   \<and> submit_disabled (fst (NameChange (example_world [] [])))"
proof -
  have a: "memo_ok (fiber (example_world [] ''Bob''))"
    by (rule example_world_facts)
  have b: "selectUserName (store (example_world [] ''Bob'')) = []"
    by (rule example_world_facts)
  have c: "state_cell (fiber (example_world [] ''Bob'')) = Some ''Bob''"
    by (rule example_world_facts)
  have a': "memo_ok (fiber (example_world [] []))"
    by (rule example_world_facts)
  have b': "selectUserName (store (example_world [] [])) = []"
    by (rule example_world_facts)
  have c': "state_cell (fiber (example_world [] [])) = Some []"
    by (rule example_world_facts)
  show ?thesis
    using a b c a' b' c' canChangeName_iff[OF a b c] canChangeName_iff[OF a' b' c']
    by simp
qed

text \<open>
  C3. The input handler writes the draft cell and nothing else. A turn in which the user
  types leaves the store and the trace of dispatched actions as they were, and the next
  render shows the typed text as the draft; so does any sequence of such turns, after
  which the store still reads the committed name it read before. In any turn, the actions
  dispatched are none, except for a click on the enabled Submit button, which dispatches
  exactly one \<open>setUserName\<close> with the draft; the Submit handler itself dispatches exactly
  one action.
\<close>

theorem edit_leaves_store:
  "handleInputChange event w = w\<lparr>fiber := (fiber w)\<lparr>state_cell := Some (target_value event)\<rparr>\<rparr>
   \<and> store (step w (Type newText)) = store w
   \<and> dispatched (step w (Type newText)) = dispatched w
   \<and> selectUserName (store (step w (Type newText))) = selectUserName (store w)
   \<and> inputUserName (current (step w (Type newText))) = newText
   \<and> store (foldl step w (map Type texts)) = store w
   \<and> dispatched (foldl step w (map Type texts)) = dispatched w
   \<and> selectUserName (store (foldl step w (map Type texts))) = selectUserName (store w)
   \<and> dispatched (step w ev) = dispatched w @
        (if ev = ClickSubmit \<and> canChangeName (current w)
         then [setUserName (inputUserName (current w))] else [])
   \<and> store (step w ev) = foldl reducer (store w)
        (if ev = ClickSubmit \<and> canChangeName (current w)
         then [setUserName (inputUserName (current w))] else [])
   \<and> dispatched (handleNameChange l w) = dispatched w @ [setUserName (inputUserName l)]"
proof -
  have h: "handleInputChange event w =
      w\<lparr>fiber := (fiber w)\<lparr>state_cell := Some (target_value event)\<rparr>\<rparr>"
    by (simp add: handleInputChange_def setInputUserName_def)
  have e1: "store (step w (Type newText)) = store w" by (simp add: step_Type)
  have e2: "dispatched (step w (Type newText)) = dispatched w" by (simp add: step_Type)
  have e3: "inputUserName (current (step w (Type newText))) = newText"
    by (simp add: current_inputUserName step_Type)
  have d: "dispatched (step w ev) = dispatched w @
        (if ev = ClickSubmit \<and> canChangeName (current w)
         then [setUserName (inputUserName (current w))] else [])"
    by (cases ev)
       (simp_all add: step_Type step_ClickSubmit step_ClickTesting dispatch_def alert_def)
  have s: "store (step w ev) = foldl reducer (store w)
        (if ev = ClickSubmit \<and> canChangeName (current w)
         then [setUserName (inputUserName (current w))] else [])"
    by (cases ev)
       (simp_all add: step_Type step_ClickSubmit step_ClickTesting dispatch_def alert_def)
  have n: "dispatched (handleNameChange l w) = dispatched w @ [setUserName (inputUserName l)]"
    by (simp add: handleNameChange_def dispatch_def)
  show ?thesis using h e1 e2 e3 d s n run_Type_store[of w texts] by simp
qed

text \<open>
  C7. Mounting the field sets the draft to the committed name. After mounting, typing
  \<open>X\<close> and clicking Submit, the store reads \<open>X\<close>, and a new instance mounted on that
  store has \<open>X\<close> both as its draft and as the committed name it reads, with
  \<open>canChangeName\<close> false.
\<close>

theorem round_trip:
  "inputUserName (current (mount w)) = selectUserName (store (mount w))
   \<and> selectUserName (store (mount w)) = selectUserName (store w)
   \<and> selectUserName (store (step (step (mount w) (Type X)) ClickSubmit)) = X
   \<and> inputUserName (current (mount (step (step (mount w) (Type X)) ClickSubmit))) = X
   \<and> userName (current (mount (step (step (mount w) (Type X)) ClickSubmit))) = X
   \<and> state_cell (fiber (mount (step (step (mount w) (Type X)) ClickSubmit))) = Some X
   \<and> \<not> canChangeName (current (mount (step (step (mount w) (Type X)) ClickSubmit)))"
proof -
  let ?w1 = "mount w"
  let ?w2 = "step ?w1 (Type X)"
  let ?w3 = "step ?w2 ClickSubmit"
  have a1: "inputUserName (current ?w1) = selectUserName (store ?w1)"
    by (simp add: mount_eq current_inputUserName)
  have a2: "selectUserName (store ?w1) = selectUserName (store w)" by (simp add: mount_eq)
  have ok2: "memo_ok (fiber ?w2)" by (rule step_memo_ok, rule mount_memo_ok)
  have i2: "inputUserName (current ?w2) = X" by (simp add: current_inputUserName step_Type)
  have can2: "canChangeName (current ?w2) = (userName (current ?w2) \<noteq> X)"
    using current_canChangeName[OF ok2] i2 by simp
  have s3: "selectUserName (store ?w3) = X"
  proof (cases "canChangeName (current ?w2)")
    case True
    then show ?thesis
      using i2 by (simp add: step_ClickSubmit[of ?w2] dispatch_store selectUserName_def)
  next
    case False
    then have "userName (current ?w2) = X" using can2 by simp
    then have "selectUserName (store ?w2) = X" by (simp add: current_userName)
    then show ?thesis using False by (simp add: step_ClickSubmit[of ?w2])
  qed
  have i4: "inputUserName (current (mount ?w3)) = X"
    using s3 by (simp add: mount_eq[of ?w3] current_inputUserName)
  have u4: "userName (current (mount ?w3)) = X"
    using s3 by (simp add: mount_eq[of ?w3] current_userName)
  have c4: "state_cell (fiber (mount ?w3)) = Some X"
    using s3 by (simp add: mount_eq[of ?w3])
  have n4: "\<not> canChangeName (current (mount ?w3))"
    using current_canChangeName[OF mount_memo_ok, of ?w3] i4 u4 by simp
  show ?thesis using a1 a2 s3 i4 u4 c4 n4 by simp
qed

text \<open>
  C9. The Submit handler leaves the hook cells as they are. After the handler has run,
  whether through a click or invoked directly, the next render has the same draft as the
  render before; it reads the draft as the committed name, and that is why
  \<open>canChangeName\<close> is false then.
\<close>

theorem commit_keeps_draft:
  assumes ok: "memo_ok (fiber w)"
  shows "fiber (handleNameChange l w) = fiber w
       \<and> inputUserName (current (invoke_commit w)) = inputUserName (current w)
       \<and> inputUserName (current (step w ClickSubmit)) = inputUserName (current w)
       \<and> userName (current (invoke_commit w)) = inputUserName (current w)
       \<and> canChangeName (current (invoke_commit w)) =
           (userName (current (invoke_commit w)) \<noteq> inputUserName (current w))
       \<and> \<not> canChangeName (current (invoke_commit w))
       \<and> \<not> canChangeName (current (step w ClickSubmit))"
proof -
  have f: "fiber (handleNameChange l w) = fiber w"
    by (simp add: handleNameChange_def dispatch_def)
  have i1: "inputUserName (current (invoke_commit w)) = inputUserName (current w)"
    by (rule invoke_commit_inputUserName)
  have i2: "inputUserName (current (step w ClickSubmit)) = inputUserName (current w)"
    by (simp add: step_ClickSubmit current_inputUserName[of "dispatch _ _"]
          current_inputUserName[of "w\<lparr>fiber := _\<rparr>"] dispatch_fiber run_hooks_state_cell)
  have u1: "userName (current (invoke_commit w)) = inputUserName (current w)"
    by (simp add: invoke_commit_eq current_userName[of "dispatch _ _"] dispatch_store
          selectUserName_def)
  have ok1: "memo_ok (fiber (invoke_commit w))"
    using run_hooks_memo_ok[OF ok] by (simp add: invoke_commit_eq dispatch_fiber)
  have e1: "canChangeName (current (invoke_commit w)) =
      (userName (current (invoke_commit w)) \<noteq> inputUserName (current w))"
    using current_canChangeName[OF ok1] i1 by simp
  have c1: "\<not> canChangeName (current (invoke_commit w))"
    using e1 u1 by simp
  have c2: "\<not> canChangeName (current (step w ClickSubmit))"
  proof (cases "canChangeName (current w)")
    case True
    then have "step w ClickSubmit = invoke_commit w"
      by (simp add: step_ClickSubmit invoke_commit_eq)
    then show ?thesis using c1 by simp
  next
    case False
    then have "step w ClickSubmit = w\<lparr>fiber := snd (run_hooks w)\<rparr>"
      by (simp add: step_ClickSubmit)
    then show ?thesis using False by (simp add: current_def run_hooks_rendered)
  qed
  show ?thesis using f i1 i2 u1 e1 c1 c2 by simp
qed

theorem commit_keeps_draft_witness:
  "memo_ok (fiber (example_world ''Alice'' ''Bob''))
   \<and> inputUserName (current (example_world ''Alice'' ''Bob'')) = ''Bob''
   \<and> inputUserName (current (step (example_world ''Alice'' ''Bob'') ClickSubmit)) = ''Bob''
   \<and> \<not> canChangeName (current (step (example_world ''Alice'' ''Bob'') ClickSubmit))"
proof -
  have a: "memo_ok (fiber (example_world ''Alice'' ''Bob''))"
    by (rule example_world_facts)
  have b: "inputUserName (current (example_world ''Alice'' ''Bob'')) = ''Bob''"
    by (simp add: example_world_current)
  show ?thesis using a b commit_keeps_draft[OF a] by simp
qed

text \<open>
  C10. The Submit handler makes the store read the draft, whatever the button's state.
  Invoked while the draft equals the committed name, it still dispatches one action, and
  the store afterwards is the store before; invoked twice in a row, it leaves the store
  that one invocation leaves.
\<close>

theorem commit_handler_idempotent:
  "selectUserName (store (handleNameChange l w)) = inputUserName l
   \<and> store (handleNameChange l (handleNameChange l w)) = store (handleNameChange l w)
   \<and> selectUserName (store (invoke_commit w)) = inputUserName (current w)
   \<and> dispatched (invoke_commit w) = dispatched w @ [setUserName (inputUserName (current w))]
   \<and> (inputUserName (current w) = userName (current w) \<longrightarrow> store (invoke_commit w) = store w)
   \<and> store (invoke_commit (invoke_commit w)) = store (invoke_commit w)"
proof -
  have h1: "selectUserName (store (handleNameChange l w)) = inputUserName l"
    by (simp add: handleNameChange_def dispatch_def selectUserName_def)
  have h2: "store (handleNameChange l (handleNameChange l w)) = store (handleNameChange l w)"
    by (simp add: handleNameChange_def dispatch_def)
  have c1: "selectUserName (store (invoke_commit w)) = inputUserName (current w)"
    by (simp add: invoke_commit_store selectUserName_def)
  have c2: "dispatched (invoke_commit w) =
      dispatched w @ [setUserName (inputUserName (current w))]"
    by (simp add: invoke_commit_eq dispatch_def)
  have c3: "inputUserName (current w) = userName (current w) \<longrightarrow>
      store (invoke_commit w) = store w"
    by (simp add: invoke_commit_store current_userName selectUserName_def)
  have c4: "store (invoke_commit (invoke_commit w)) = store (invoke_commit w)"
    by (simp add: invoke_commit_store[of "invoke_commit w"] invoke_commit_inputUserName)
       (simp add: invoke_commit_store)
  show ?thesis using h1 h2 c1 c2 c3 c4 by simp
qed

theorem commit_handler_idempotent_witness:
  "inputUserName (current (example_world ''Alice'' ''Alice'')) =
     userName (current (example_world ''Alice'' ''Alice''))
   \<and> submit_disabled (fst (NameChange (example_world ''Alice'' ''Alice'')))
   \<and> store (invoke_commit (example_world ''Alice'' ''Alice'')) =
       store (example_world ''Alice'' ''Alice'')
   \<and> dispatched (invoke_commit (example_world ''Alice'' ''Alice'')) = [setUserName ''Alice'']"
proof -
  have a: "inputUserName (current (example_world ''Alice'' ''Alice'')) =
      userName (current (example_world ''Alice'' ''Alice''))"
    by (simp add: example_world_current)
  have b: "submit_disabled (fst (NameChange (example_world ''Alice'' ''Alice'')))"
    by (simp add: NameChange_eq example_world_current)
  have c: "dispatched (example_world ''Alice'' ''Alice'') = []"
    by (simp add: example_world_eq)
  have d: "inputUserName (current (example_world ''Alice'' ''Alice'')) = ''Alice''"
    by (simp add: example_world_current)
  show ?thesis
    using a b c d commit_handler_idempotent[of _ "example_world ''Alice'' ''Alice''"]
    by simp
qed

end
